theory Spec2Isabelle
  imports Main "HOL-Library.Sublist"
begin

section \<open>JavaScript values and errors\<close>

text \<open>
  The values that travel through \<open>performOperation\<close>: the \<open>data\<close> to write and the
  value a call resolves with are a JavaScript string, a Buffer, \<open>null\<close> or \<open>undefined\<close>.
  A Buffer is its bytes. A string is represented by its UTF-8 encoding, which is well
  formed, so that encoding a string as \<open>'utf8'\<close> gives the bytes that represent it
  (\<open>bytes_of\<close>); a string with a lone surrogate has no such representation and is not
  a value of the model.
\<close>

datatype jsvalue = Str string | Buf string | Null | Undefined

fun bytes_of :: "jsvalue \<Rightarrow> string option" where
  "bytes_of (Str s) = Some s"
| "bytes_of (Buf b) = Some b"
| "bytes_of Null = None"
| "bytes_of Undefined = None"

text \<open>
  Decoding bytes as UTF-8 text never fails: a well-formed sequence is kept, and every
  maximal ill-formed part is replaced by U+FFFD (the bytes \<open>EF BF BD\<close>). The decoder
  is the state machine of the Encoding Standard: \<open>needed\<close> continuation bytes are still
  expected after the bytes \<open>seen\<close>, the next one within \<open>lower\<close> and \<open>upper\<close>; a byte
  outside these bounds ends the sequence with a replacement and is read again as the
  start of a new one.
\<close>

definition replacement_character :: string where
  "replacement_character = [CHR 0xEF, CHR 0xBF, CHR 0xBD]"

fun utf8_decoder :: "nat \<Rightarrow> string \<Rightarrow> nat \<Rightarrow> nat \<Rightarrow> string \<Rightarrow> string" where
  "utf8_decoder needed seen lower upper [] =
     (if needed = 0 then [] else replacement_character)"
| "utf8_decoder needed seen lower upper (c # cs) =
     (let n = (of_char c :: nat) in
      if needed = 0 then
        if n \<le> 0x7F then c # utf8_decoder 0 [] 0x80 0xBF cs
        else if 0xC2 \<le> n \<and> n \<le> 0xDF then utf8_decoder 1 [c] 0x80 0xBF cs
        else if 0xE0 \<le> n \<and> n \<le> 0xEF then
          utf8_decoder 2 [c] (if n = 0xE0 then 0xA0 else 0x80) (if n = 0xED then 0x9F else 0xBF) cs
        else if 0xF0 \<le> n \<and> n \<le> 0xF4 then
          utf8_decoder 3 [c] (if n = 0xF0 then 0x90 else 0x80) (if n = 0xF4 then 0x8F else 0xBF) cs
        else replacement_character @ utf8_decoder 0 [] 0x80 0xBF cs
      else if n < lower \<or> upper < n then
        replacement_character @ utf8_decoder 0 [] 0x80 0xBF (c # cs)
      else if needed = 1 then seen @ [c] @ utf8_decoder 0 [] 0x80 0xBF cs
      else utf8_decoder (needed - 1) (seen @ [c]) 0x80 0xBF cs)"

text \<open>
  The bytes of the string that decoding gives; bytes are well-formed UTF-8 when decoding
  leaves them as they are.
\<close>

definition utf8_sanitize :: "string \<Rightarrow> string" where
  "utf8_sanitize b = utf8_decoder 0 [] 0x80 0xBF b"

text \<open>
  An error object is either a plain \<open>Error\<close> (a system error of \<open>fs\<close> carries a \<open>code\<close>,
  \<open>new Error(msg)\<close> and a \<open>TypeError\<close> of argument validation are built the same way),
  or an instance of the class \<open>FileUtilsError\<close> with the fields \<open>message\<close>, \<open>operation\<close>,
  \<open>filePath\<close> and \<open>originalError\<close>. A \<open>FileUtilsError\<close> has no \<open>code\<close> property.
\<close>

datatype err =
    Error "string option" string
  | FileUtilsError string string string err

fun err_code :: "err \<Rightarrow> string option" where
  "err_code (Error c m) = c"
| "err_code (FileUtilsError m oper p orig) = None"

fun err_message :: "err \<Rightarrow> string" where
  "err_message (Error c m) = m"
| "err_message (FileUtilsError m oper p orig) = m"

fun err_operation :: "err \<Rightarrow> string option" where
  "err_operation (Error c m) = None"
| "err_operation (FileUtilsError m oper p orig) = Some oper"

fun err_filePath :: "err \<Rightarrow> string option" where
  "err_filePath (Error c m) = None"
| "err_filePath (FileUtilsError m oper p orig) = Some p"

fun err_originalError :: "err \<Rightarrow> err option" where
  "err_originalError (Error c m) = None"
| "err_originalError (FileUtilsError m oper p orig) = Some orig"

fun is_FileUtilsError :: "err \<Rightarrow> bool" where
  "is_FileUtilsError (Error c m) = False"
| "is_FileUtilsError (FileUtilsError m oper p orig) = True"

text \<open>
  \<open>FileUtilsError.formatErrorMessage\<close>: \<open>if (error.code)\<close> holds for a code that is
  defined and not the empty string; the \<open>switch\<close> compares with \<open>===\<close>.
\<close>

definition formatErrorMessage :: "err \<Rightarrow> string" where
  "formatErrorMessage error =
     (case err_code error of
        None \<Rightarrow> err_message error
      | Some c \<Rightarrow>
          if c = [] then err_message error
          else if c = ''ENOENT'' then ''File not found''
          else if c = ''EACCES'' then ''Permission denied''
          else if c = ''ENOTDIR'' then ''Not a directory''
          else if c = ''EISDIR'' then ''Is a directory, not a file''
          else err_message error)"

text \<open>The constructor \<open>new FileUtilsError(originalError, operation, filePath)\<close>.\<close>

definition new_FileUtilsError :: "err \<Rightarrow> string \<Rightarrow> string \<Rightarrow> err" where
  "new_FileUtilsError originalError oper path =
     FileUtilsError (formatErrorMessage originalError) oper path originalError"

section \<open>Paths\<close>

text \<open>
  A resolved absolute path is the list of its components, the root being \<open>[]\<close>.
  \<open>path.resolve\<close> (POSIX) prepends the working directory to a relative path, drops empty
  and \<open>.\<close> segments, and lets \<open>..\<close> remove the segment before it (at the root, nothing).
\<close>

type_synonym path = "string list"

fun split_on_slash :: "string \<Rightarrow> string list" where
  "split_on_slash [] = [[]]"
| "split_on_slash (c # cs) =
     (if c = CHR ''/'' then [] # split_on_slash cs
      else (case split_on_slash cs of
              [] \<Rightarrow> [[c]]
            | s # ss \<Rightarrow> (c # s) # ss))"

definition normalize_segment :: "path \<Rightarrow> string \<Rightarrow> path" where
  "normalize_segment acc seg =
     (if seg = [] \<or> seg = ''.'' then acc
      else if seg = ''..'' then butlast acc
      else acc @ [seg])"

definition isAbsolute :: "string \<Rightarrow> bool" where
  "isAbsolute p = (case p of [] \<Rightarrow> False | c # cs \<Rightarrow> c = CHR ''/'')"

definition path_resolve :: "path \<Rightarrow> string \<Rightarrow> path" where
  "path_resolve cwd p =
     foldl normalize_segment (if isAbsolute p then [] else cwd) (split_on_slash p)"

definition path_dirname :: "path \<Rightarrow> path" where
  "path_dirname p = butlast p"

text \<open>The string of a resolved path, as it appears in error objects.\<close>

definition path_string :: "path \<Rightarrow> string" where
  "path_string p = (if p = [] then ''/'' else concat (map (\<lambda>c. CHR ''/'' # c) p))"

text \<open>
  A path string that holds a NUL character is refused by every function of \<open>fs\<close>
  before any system call is made.
\<close>

definition has_null_byte :: "string \<Rightarrow> bool" where
  "has_null_byte s = (CHR 0x00 \<in> set s)"

section \<open>The file system\<close>

text \<open>
  The file system is a tree: a regular file holds bytes, a directory maps names to
  nodes. The state is the root, which is absent when nothing exists at all (the root is
  removed like any other directory). There are no
  permissions, links or device errors in the model, so the only failures of a system
  call are the ones that depend on the shape of the tree. No entry of a directory has a
  name that holds a NUL character: a lookup never finds such a name, whatever the map of
  the directory holds for it.
\<close>

datatype node = File string | Dir "string \<Rightarrow> node option"

type_synonym filesystem = "node option"

datatype errno = ENOENT | ENOTDIR | EISDIR | EEXIST

datatype entry = RegularFile string | Directory

fun stat :: "filesystem \<Rightarrow> path \<Rightarrow> errno + entry" where
  "stat None p = Inl ENOENT"
| "stat (Some (File b)) [] = Inr (RegularFile b)"
| "stat (Some (Dir m)) [] = Inr Directory"
| "stat (Some (File b)) (c # cs) = Inl ENOTDIR"
| "stat (Some (Dir m)) (c # cs) = (if has_null_byte c then Inl ENOENT else stat (m c) cs)"

text \<open>
  \<open>alter f p t\<close> replaces what is at \<open>p\<close> by \<open>f\<close> of it, when the components of \<open>p\<close>
  before the last lead through directories, and leaves the tree as it is otherwise.
\<close>

fun alter :: "(node option \<Rightarrow> node option) \<Rightarrow> path \<Rightarrow> filesystem \<Rightarrow> filesystem" where
  "alter f [] t = f t"
| "alter f (c # cs) (Some (Dir m)) = Some (Dir (m(c := alter f cs (m c))))"
| "alter f (c # cs) (Some (File b)) = Some (File b)"
| "alter f (c # cs) None = None"

text \<open>
  \<open>mkdir -p\<close>: directories are created from the first missing component on; a regular
  file on the way is \<open>ENOTDIR\<close>, a regular file at the end \<open>EEXIST\<close>.
\<close>

fun mkdirs :: "filesystem \<Rightarrow> path \<Rightarrow> errno + filesystem" where
  "mkdirs None [] = Inr (Some (Dir (\<lambda>x. None)))"
| "mkdirs (Some (Dir m)) [] = Inr (Some (Dir m))"
| "mkdirs (Some (File b)) [] = Inl EEXIST"
| "mkdirs (Some (File b)) (c # cs) = Inl ENOTDIR"
| "mkdirs (Some (Dir m)) (c # cs) =
     (case mkdirs (m c) cs of
        Inl e \<Rightarrow> Inl e
      | Inr t \<Rightarrow> Inr (Some (Dir (m(c := t)))))"
| "mkdirs None (c # cs) =
     (case mkdirs None cs of
        Inl e \<Rightarrow> Inl e
      | Inr t \<Rightarrow> Inr (Some (Dir ((\<lambda>x. None)(c := t)))))"

subsection \<open>System errors\<close>

fun errno_code :: "errno \<Rightarrow> string" where
  "errno_code ENOENT = ''ENOENT''"
| "errno_code ENOTDIR = ''ENOTDIR''"
| "errno_code EISDIR = ''EISDIR''"
| "errno_code EEXIST = ''EEXIST''"

fun errno_text :: "errno \<Rightarrow> string" where
  "errno_text ENOENT = ''no such file or directory''"
| "errno_text ENOTDIR = ''not a directory''"
| "errno_text EISDIR = ''illegal operation on a directory''"
| "errno_text EEXIST = ''file already exists''"

text \<open>
  The error object Node builds for a failed system call, for instance
  \<open>ENOENT: no such file or directory, access '/x'\<close> with \<open>code = 'ENOENT'\<close>.
\<close>

definition system_error :: "errno \<Rightarrow> string \<Rightarrow> path \<Rightarrow> err" where
  "system_error e syscall p =
     Error (Some (errno_code e))
       (errno_code e @ '': '' @ errno_text e @ '', '' @ syscall @ '' '' @
        [CHR 0x27] @ path_string p @ [CHR 0x27])"

text \<open>
  The error of the path validation, \<open>code = 'ERR_INVALID_ARG_VALUE'\<close>. Its message ends
  with the path as \<open>util.inspect\<close> prints it; of the escapes of \<open>util.inspect\<close> only the
  one of the NUL character is written out here.
\<close>

fun inspect_chars :: "string \<Rightarrow> string" where
  "inspect_chars [] = []"
| "inspect_chars (c # cs) =
     (if c = CHR 0x00 then [CHR 0x5C] @ ''x00'' @ inspect_chars cs else c # inspect_chars cs)"

definition invalid_path_error :: "path \<Rightarrow> err" where
  "invalid_path_error p =
     Error (Some ''ERR_INVALID_ARG_VALUE'')
       (''The argument '' @ [CHR 0x27] @ ''path'' @ [CHR 0x27] @
        '' must be a string, Uint8Array, or URL without null bytes. Received '' @
        [CHR 0x27] @ inspect_chars (path_string p) @ [CHR 0x27])"

subsection \<open>Asynchronous actions\<close>

text \<open>
  An awaited promise either resolves with a value or rejects with an error, and leaves
  the file system in a new state.
\<close>

type_synonym 'a io = "filesystem \<Rightarrow> (err + 'a) \<times> filesystem"

definition io_return :: "'a \<Rightarrow> 'a io" where
  "io_return x = (\<lambda>fs. (Inr x, fs))"

definition io_throw :: "err \<Rightarrow> 'a io" where
  "io_throw e = (\<lambda>fs. (Inl e, fs))"

definition io_bind :: "'a io \<Rightarrow> ('a \<Rightarrow> 'b io) \<Rightarrow> 'b io" where
  "io_bind m k = (\<lambda>fs. case m fs of (Inl e, fs') \<Rightarrow> (Inl e, fs') | (Inr x, fs') \<Rightarrow> k x fs')"

definition io_catch :: "'a io \<Rightarrow> (err \<Rightarrow> 'a io) \<Rightarrow> 'a io" where
  "io_catch m h = (\<lambda>fs. case m fs of (Inl e, fs') \<Rightarrow> h e fs' | (Inr x, fs') \<Rightarrow> (Inr x, fs'))"

subsection \<open>The primitives of \<open>fs.promises\<close> that the module calls\<close>

text \<open>
  Each primitive validates its path first; \<open>fs.access(p, F_OK)\<close> then succeeds when
  something is at \<open>p\<close>.
\<close>

definition fs_access :: "path \<Rightarrow> unit io" where
  "fs_access p = (\<lambda>fs.
     if has_null_byte (path_string p) then (Inl (invalid_path_error p), fs)
     else
       case stat fs p of
         Inl e \<Rightarrow> (Inl (system_error e ''access'' p), fs)
       | Inr x \<Rightarrow> (Inr (), fs))"

text \<open>
  \<open>fs.readFile(p, encoding)\<close>: the bytes as a Buffer when the encoding is \<open>null\<close>; with
  an encoding (the module passes \<open>'utf8'\<close> only) the string the bytes decode to. A
  directory is opened and fails to be read; that error names no path.
\<close>

definition fs_readFile :: "path \<Rightarrow> string option \<Rightarrow> jsvalue io" where
  "fs_readFile p encoding = (\<lambda>fs.
     if has_null_byte (path_string p) then (Inl (invalid_path_error p), fs)
     else
       case stat fs p of
         Inl e \<Rightarrow> (Inl (system_error e ''open'' p), fs)
       | Inr Directory \<Rightarrow>
           (Inl (Error (Some ''EISDIR'') ''EISDIR: illegal operation on a directory, read''), fs)
       | Inr (RegularFile b) \<Rightarrow>
           (Inr (case encoding of None \<Rightarrow> Buf b | Some enc \<Rightarrow> Str (utf8_sanitize b)), fs))"

text \<open>
  \<open>fs.writeFile(p, data, encoding)\<close>: the data is validated first, then the path;
  a string is encoded as UTF-8 also when the encoding is \<open>null\<close> (the default applies),
  a Buffer is written as it is. The file is created when its parent directory exists,
  and truncated when it is there already.
\<close>

definition fs_writeFile :: "path \<Rightarrow> jsvalue \<Rightarrow> string option \<Rightarrow> unit io" where
  "fs_writeFile p d encoding = (\<lambda>fs.
     case bytes_of d of
       None \<Rightarrow>
         (Inl (Error (Some ''ERR_INVALID_ARG_TYPE'')
            (''The '' @ [CHR 0x22] @ ''data'' @ [CHR 0x22] @
             '' argument must be of type string or an instance of Buffer, TypedArray, or DataView. Received '' @
             (if d = Null then ''null'' else ''undefined''))),
          fs)
     | Some b \<Rightarrow>
         if has_null_byte (path_string p) then (Inl (invalid_path_error p), fs)
         else
           (case stat fs p of
              Inr Directory \<Rightarrow> (Inl (system_error EISDIR ''open'' p), fs)
            | Inr (RegularFile old) \<Rightarrow> (Inr (), alter (\<lambda>x. Some (File b)) p fs)
            | Inl e \<Rightarrow>
                if e = ENOENT \<and> p \<noteq> [] \<and> stat fs (butlast p) = Inr Directory
                then (Inr (), alter (\<lambda>x. Some (File b)) p fs)
                else (Inl (system_error e ''open'' p), fs)))"

text \<open>\<open>fs.unlink(p)\<close> removes a regular file; on a directory it fails (\<open>EISDIR\<close> on Linux).\<close>

definition fs_unlink :: "path \<Rightarrow> unit io" where
  "fs_unlink p = (\<lambda>fs.
     if has_null_byte (path_string p) then (Inl (invalid_path_error p), fs)
     else
       case stat fs p of
         Inl e \<Rightarrow> (Inl (system_error e ''unlink'' p), fs)
       | Inr Directory \<Rightarrow> (Inl (system_error EISDIR ''unlink'' p), fs)
       | Inr (RegularFile b) \<Rightarrow> (Inr (), alter (\<lambda>x. None) p fs))"

text \<open>\<open>fs.rm(p, { recursive: true, force: true })\<close>: a path that is not there is no error.\<close>

definition fs_rm_recursive_force :: "path \<Rightarrow> unit io" where
  "fs_rm_recursive_force p = (\<lambda>fs.
     if has_null_byte (path_string p) then (Inl (invalid_path_error p), fs)
     else
       case stat fs p of
         Inl e \<Rightarrow> if e = ENOENT then (Inr (), fs) else (Inl (system_error e ''lstat'' p), fs)
       | Inr x \<Rightarrow> (Inr (), alter (\<lambda>x. None) p fs))"

text \<open>\<open>fs.mkdir(p, { recursive: true })\<close>.\<close>

definition fs_mkdir_recursive :: "path \<Rightarrow> unit io" where
  "fs_mkdir_recursive p = (\<lambda>fs.
     if has_null_byte (path_string p) then (Inl (invalid_path_error p), fs)
     else
       case mkdirs fs p of
         Inl e \<Rightarrow> (Inl (system_error e ''mkdir'' p), fs)
       | Inr fs' \<Rightarrow> (Inr (), fs'))"

section \<open>The class \<open>FileUtils\<close>\<close>

record options_t =
  ensureExists :: bool
  mkdir :: bool
  binary :: bool

text \<open>
  The Express response is known to the module by its method \<open>download(path, callback)\<close>
  only: given the file system and the resolved path, it calls back with an error or
  with none.
\<close>

type_synonym response_t = "filesystem \<Rightarrow> path \<Rightarrow> err option"

record request =
  operation :: string
  filePath :: string
  options :: options_t
  data :: jsvalue
  response :: "response_t option"

definition ensureFileExists :: "path \<Rightarrow> unit io" where
  "ensureFileExists p =
     io_catch (fs_access p)
       (\<lambda>error. io_throw (new_FileUtilsError error ''ensureExists'' (path_string p)))"

definition deleteFolder :: "path \<Rightarrow> unit io" where
  "deleteFolder folderPath =
     io_catch (fs_rm_recursive_force folderPath)
       (\<lambda>error. io_throw (new_FileUtilsError error ''deleteFolder'' (path_string folderPath)))"

definition downloadFile :: "path \<Rightarrow> response_t \<Rightarrow> string \<Rightarrow> unit io" where
  "downloadFile cwd res fp = (\<lambda>fs.
     let fullPath = path_resolve cwd fp in
     case res fs fullPath of
       Some error \<Rightarrow> (Inl (new_FileUtilsError error ''download'' fp), fs)
     | None \<Rightarrow> (Inr (), fs))"

definition ensureExistsAndDelete :: "path \<Rightarrow> bool \<Rightarrow> unit io" where
  "ensureExistsAndDelete fullPath isFolder =
     io_bind
       (io_catch (fs_access fullPath)
          (\<lambda>error. io_throw
             (new_FileUtilsError error (if isFolder then ''deleteFolder'' else ''delete'')
                (path_string fullPath))))
       (\<lambda>u. if isFolder then fs_rm_recursive_force fullPath else fs_unlink fullPath)"

text \<open>
  The body of the \<open>try\<close> block of \<open>performOperation\<close>; \<open>cwd\<close> is the working directory.
  The parameter \<open>data\<close> defaults to \<open>null\<close> when it is \<open>undefined\<close>.
\<close>

definition performOperation_try :: "path \<Rightarrow> request \<Rightarrow> jsvalue io" where
  "performOperation_try cwd req =
     (let fullPath = path_resolve cwd (filePath req) in
      io_bind
        (if ensureExists (options req) \<and> operation req \<in> set [''read'', ''download'']
         then ensureFileExists fullPath else io_return ())
      (\<lambda>u. io_bind
        (if mkdir (options req) \<and> operation req \<in> set [''write'']
         then fs_mkdir_recursive (path_dirname fullPath) else io_return ())
      (\<lambda>u.
         if operation req = ''read'' then
           fs_readFile fullPath (if binary (options req) then None else Some ''utf8'')
         else if operation req = ''write'' then
           io_bind
             (fs_writeFile fullPath (if data req = Undefined then Null else data req)
                (if binary (options req) then None else Some ''utf8''))
             (\<lambda>u. io_return (Str ''File written successfully''))
         else if operation req = ''download'' then
           (case response req of
              None \<Rightarrow> io_throw (Error None ''Response object is required for download'')
            | Some res \<Rightarrow>
                io_bind (downloadFile cwd res (filePath req)) (\<lambda>u. io_return Undefined))
         else if operation req = ''delete'' then
           io_bind (ensureExistsAndDelete fullPath False)
             (\<lambda>u. io_bind (fs_unlink fullPath)
             (\<lambda>u. io_return (Str ''File deleted successfully'')))
         else if operation req = ''deleteFolder'' then
           io_bind (ensureExistsAndDelete fullPath True)
             (\<lambda>u. io_bind (deleteFolder fullPath)
             (\<lambda>u. io_return (Str ''Folder deleted successfully'')))
         else io_throw (Error None ''Invalid file operation''))))"

text \<open>\<open>performOperation\<close>: whatever the body throws is wrapped by the \<open>catch\<close> clause.\<close>

definition performOperation :: "path \<Rightarrow> request \<Rightarrow> jsvalue io" where
  "performOperation cwd req =
     io_catch (performOperation_try cwd req)
       (\<lambda>error. io_throw (new_FileUtilsError error (operation req) (filePath req)))"

text \<open>The error a call rejects with, if it rejects.\<close>

definition rejection :: "(err + 'a) \<times> filesystem \<Rightarrow> err option" where
  "rejection r = (case fst r of Inl e \<Rightarrow> Some e | Inr v \<Rightarrow> None)"

text \<open>
  The failures that arise in a helper which builds a \<open>FileUtilsError\<close> of its own
  before the \<open>catch\<close> clause of \<open>performOperation\<close> sees the error: the existence check
  of \<open>ensureFileExists\<close> (\<open>read\<close> and \<open>download\<close> with \<open>options.ensureExists\<close>),
  the existence check of \<open>ensureExistsAndDelete\<close> (\<open>delete\<close> and \<open>deleteFolder\<close>), and
  the callback of \<open>downloadFile\<close>.
\<close>

definition helper_fails :: "path \<Rightarrow> request \<Rightarrow> filesystem \<Rightarrow> bool" where
  "helper_fails cwd req fs =
     (let fullPath = path_resolve cwd (filePath req);
          inaccessible = isl (stat fs fullPath)
      in (ensureExists (options req) \<and> operation req \<in> {''read'', ''download''} \<and> inaccessible)
       \<or> (operation req \<in> {''delete'', ''deleteFolder''} \<and> inaccessible)
       \<or> (operation req = ''download'' \<and>
            (case response req of None \<Rightarrow> False | Some res \<Rightarrow> res fs fullPath \<noteq> None)))"

lemmas io_defs = io_return_def io_throw_def io_bind_def io_catch_def

lemmas path_defs = path_resolve_def isAbsolute_def normalize_segment_def path_string_def
  path_dirname_def

lemmas dispatch_defs = performOperation_def performOperation_try_def io_defs Let_def
  new_FileUtilsError_def

lemmas eval_defs = dispatch_defs path_defs system_error_def formatErrorMessage_def
  ensureFileExists_def ensureExistsAndDelete_def deleteFolder_def downloadFile_def
  fs_access_def fs_readFile_def fs_writeFile_def fs_unlink_def fs_rm_recursive_force_def
  fs_mkdir_recursive_def rejection_def has_null_byte_def

section \<open>Facts about the file system\<close>

lemma has_null_path_string:
  "has_null_byte (path_string p) \<longleftrightarrow> (\<exists>c\<in>set p. has_null_byte c)"
  by (auto simp add: has_null_byte_def path_string_def)

lemma has_null_butlast:
  "\<not> has_null_byte (path_string p) \<Longrightarrow> \<not> has_null_byte (path_string (butlast p))"
  by (auto simp add: has_null_path_string dest: in_set_butlastD)

text \<open>What a lookup finds has a path without NUL; a lookup fails in one of two ways.\<close>

lemma stat_Inr_no_null: "stat t p = Inr e \<Longrightarrow> \<not> has_null_byte (path_string p)"
  unfolding has_null_path_string
  by (induction t p rule: stat.induct) (auto split: if_splits)

lemma null_stat_fails: "has_null_byte (path_string p) \<Longrightarrow> isl (stat t p)"
  using stat_Inr_no_null [of t p] by (cases "stat t p") auto

lemma stat_Inl_cases: "stat t p = Inl e \<Longrightarrow> e = ENOENT \<or> e = ENOTDIR"
  by (induction t p rule: stat.induct) (auto split: if_splits)

lemma stat_ENOENT_append: "stat t p = Inl ENOENT \<Longrightarrow> stat t (p @ q) = Inl ENOENT"
  by (induction t p rule: stat.induct) (auto split: if_splits)

lemma stat_parent: "stat t p = Inr e \<Longrightarrow> p \<noteq> [] \<Longrightarrow> stat t (butlast p) = Inr Directory"
  by (induction t p rule: stat.induct) (auto split: if_splits)

text \<open>Removing what is at \<open>p\<close> removes everything below it as well.\<close>

lemma stat_alter_remove:
  "stat t p = Inr e \<Longrightarrow> stat (alter (\<lambda>x. None) p t) (p @ q) = Inl ENOENT"
  by (induction t p rule: stat.induct) (auto split: if_splits)

lemma stat_alter_removed:
  "stat t p = Inr e \<Longrightarrow> stat (alter (\<lambda>x. None) p t) p = Inl ENOENT"
  using stat_alter_remove [of t p e "[]"] by simp

text \<open>A change at \<open>p\<close> is seen only at \<open>p\<close> and below it.\<close>

lemma stat_alter_frame: "\<not> prefix p q \<Longrightarrow> stat (alter f p t) q = stat t q"
proof (induction f p t arbitrary: q rule: alter.induct)
  case (1 f t)
  then show ?case by simp
next
  case (2 f c cs m)
  then show ?case by (cases q) auto
next
  case (3 f c cs b)
  then show ?case by simp
next
  case (4 f c cs)
  then show ?case by simp
qed

lemma stat_alter_put:
  "p = [] \<or> stat t (butlast p) = Inr Directory \<Longrightarrow> \<not> has_null_byte (path_string p) \<Longrightarrow>
   stat (alter (\<lambda>x. Some (File b)) p t) p = Inr (RegularFile b)"
  unfolding has_null_path_string
  by (induction t p rule: stat.induct) (auto split: if_splits)

lemma mkdirs_succeeds:
  "stat t p = Inl ENOENT \<or> stat t p = Inr Directory \<Longrightarrow> \<not> has_null_byte (path_string p) \<Longrightarrow>
   \<exists>t'. mkdirs t p = Inr t'"
  unfolding has_null_path_string
  by (induction t p rule: mkdirs.induct) (auto split: sum.splits if_splits)

lemma mkdirs_prefix:
  "mkdirs t p = Inr t' \<Longrightarrow> \<not> has_null_byte (path_string p) \<Longrightarrow> prefix q p \<Longrightarrow>
   stat t' q = Inr Directory"
  unfolding has_null_path_string
proof (induction t p arbitrary: t' q rule: mkdirs.induct)
  case (5 m c cs)
  then show ?case by (cases q) (auto split: sum.splits)
next
  case (6 c cs)
  then show ?case by (cases q) (auto split: sum.splits)
qed auto

lemma mkdirs_frame:
  "mkdirs t p = Inr t' \<Longrightarrow> \<not> prefix q p \<Longrightarrow> stat t' q = stat t q"
proof (induction t p arbitrary: t' q rule: mkdirs.induct)
  case 1
  then show ?case by (cases q) auto
next
  case (5 m c cs)
  then show ?case by (cases q) (auto split: sum.splits)
next
  case (6 c cs)
  then show ?case by (cases q) (auto split: sum.splits)
qed auto

lemma not_prefix_butlast: "p \<noteq> [] \<Longrightarrow> \<not> prefix p (butlast p)"
  by (cases p rule: rev_cases) (auto dest: prefix_length_le)

lemma strict_prefix_butlast: "strict_prefix q p \<Longrightarrow> prefix q (butlast p)"
  by (cases p rule: rev_cases) (auto simp: strict_prefix_def)

lemma is_FileUtilsError_system_error [simp]: "\<not> is_FileUtilsError (system_error e s p)"
  by (simp add: system_error_def)

lemma err_operation_system_error [simp]: "err_operation (system_error e s p) = None"
  by (simp add: system_error_def)

lemma is_FileUtilsError_invalid_path_error [simp]: "\<not> is_FileUtilsError (invalid_path_error p)"
  by (simp add: invalid_path_error_def)

lemma err_operation_invalid_path_error [simp]: "err_operation (invalid_path_error p) = None"
  by (simp add: invalid_path_error_def)

lemma err_code_invalid_path_error [simp]:
  "err_code (invalid_path_error p) = Some ''ERR_INVALID_ARG_VALUE''"
  by (simp add: invalid_path_error_def)

lemma formatErrorMessage_invalid_path_error [simp]:
  "formatErrorMessage (invalid_path_error p) = err_message (invalid_path_error p)"
  by (simp add: invalid_path_error_def formatErrorMessage_def)

lemma bytes_of_default [simp]: "bytes_of (if d = Undefined then Null else d) = bytes_of d"
  by (cases d) auto

text \<open>The existence check fails exactly when the lookup does.\<close>

lemma fs_access_fails:
  "stat fs p = Inl e \<Longrightarrow>
   fs_access p fs =
     (Inl (if has_null_byte (path_string p) then invalid_path_error p
           else system_error e ''access'' p), fs)"
  by (simp add: fs_access_def)

lemma fs_access_succeeds: "stat fs p = Inr e \<Longrightarrow> fs_access p fs = (Inr (), fs)"
  using stat_Inr_no_null [of fs p e] by (simp add: fs_access_def)

lemma fs_unlink_file:
  "stat fs p = Inr (RegularFile b) \<Longrightarrow> fs_unlink p fs = (Inr (), alter (\<lambda>x. None) p fs)"
  using stat_Inr_no_null [of fs p "RegularFile b"] by (simp add: fs_unlink_def)

lemma fs_unlink_fails:
  "stat fs p = Inl e \<Longrightarrow> \<not> has_null_byte (path_string p) \<Longrightarrow>
   fs_unlink p fs = (Inl (system_error e ''unlink'' p), fs)"
  by (simp add: fs_unlink_def)

lemma fs_rm_present:
  "stat fs p = Inr x \<Longrightarrow> fs_rm_recursive_force p fs = (Inr (), alter (\<lambda>x. None) p fs)"
  using stat_Inr_no_null [of fs p x] by (simp add: fs_rm_recursive_force_def)

lemma fs_rm_absent:
  "stat fs p = Inl ENOENT \<Longrightarrow> \<not> has_null_byte (path_string p) \<Longrightarrow>
   fs_rm_recursive_force p fs = (Inr (), fs)"
  by (simp add: fs_rm_recursive_force_def)

lemma fs_readFile_file:
  "stat fs p = Inr (RegularFile b) \<Longrightarrow>
   fs_readFile p enc fs =
     (Inr (case enc of None \<Rightarrow> Buf b | Some x \<Rightarrow> Str (utf8_sanitize b)), fs)"
  using stat_Inr_no_null [of fs p "RegularFile b"] by (simp add: fs_readFile_def)

text \<open>A write that succeeds leaves a regular file with the bytes of the data.\<close>

lemma fs_writeFile_ok:
  assumes "fs_writeFile p d enc fs = (Inr u, fs')"
  shows "\<exists>b. bytes_of d = Some b \<and> stat fs' p = Inr (RegularFile b)"
proof (cases "bytes_of d")
  case None
  with assms show ?thesis by (simp add: fs_writeFile_def)
next
  case (Some b)
  have nul: "\<not> has_null_byte (path_string p)"
    using assms Some by (auto simp add: fs_writeFile_def split: if_splits)
  have par: "p = [] \<or> stat fs (butlast p) = Inr Directory"
    and new: "fs' = alter (\<lambda>x. Some (File b)) p fs"
    using assms Some nul stat_parent [of fs p]
    by (auto simp add: fs_writeFile_def split: sum.splits entry.splits if_splits)
  show ?thesis using Some new stat_alter_put [OF par nul] by simp
qed

section \<open>The error normalizer\<close>

text \<open>
  C9. The message of a normalized error follows the table of system error codes:
  \<open>ENOENT\<close> gives "File not found", \<open>EACCES\<close> "Permission denied", \<open>ENOTDIR\<close>
  "Not a directory", \<open>EISDIR\<close> "Is a directory, not a file"; with any other code, and
  with no code, the message of the error is passed through unchanged.
\<close>

theorem formatErrorMessage_table:
  "formatErrorMessage (Error (Some ''ENOENT'') m) = ''File not found''
   \<and> formatErrorMessage (Error (Some ''EACCES'') m) = ''Permission denied''
   \<and> formatErrorMessage (Error (Some ''ENOTDIR'') m) = ''Not a directory''
   \<and> formatErrorMessage (Error (Some ''EISDIR'') m) = ''Is a directory, not a file''
   \<and> (c \<notin> {''ENOENT'', ''EACCES'', ''ENOTDIR'', ''EISDIR''}
        \<longrightarrow> formatErrorMessage (Error (Some c) m) = m)
   \<and> formatErrorMessage (Error None m) = m
   \<and> (err_code e = None \<longrightarrow> formatErrorMessage e = err_message e)"
  by (simp add: formatErrorMessage_def)

theorem formatErrorMessage_table_witness:
  "''EEXIST'' \<notin> {''ENOENT'', ''EACCES'', ''ENOTDIR'', ''EISDIR''}
   \<and> formatErrorMessage (Error (Some ''EEXIST'') ''EEXIST: file already exists'')
       = ''EEXIST: file already exists''
   \<and> err_code (FileUtilsError ''File not found'' ''delete'' ''/x'' (Error None ''boom'')) = None
   \<and> formatErrorMessage (FileUtilsError ''File not found'' ''delete'' ''/x'' (Error None ''boom''))
       = ''File not found''"
  using formatErrorMessage_table
    [of "''EEXIST: file already exists''" "''EEXIST''"
        "FileUtilsError ''File not found'' ''delete'' ''/x'' (Error None ''boom'')"]
  by simp

section \<open>Failures of the dispatcher\<close>

text \<open>
  C8. An operation name other than \<open>read\<close>, \<open>write\<close>, \<open>delete\<close>, \<open>deleteFolder\<close> and
  \<open>download\<close> is rejected with the message "Invalid file operation", whatever the
  \<open>filePath\<close>, the options, the data, the response and the file system are; no
  pre-condition step runs for such a name, and the file system is left as it was.
\<close>

theorem invalid_operation_rejected:
  assumes "operation req \<notin> {''read'', ''write'', ''delete'', ''deleteFolder'', ''download''}"
  shows "performOperation cwd req fs =
           (Inl (FileUtilsError ''Invalid file operation'' (operation req) (filePath req)
                   (Error None ''Invalid file operation'')), fs)"
  using assms
  by (simp add: dispatch_defs formatErrorMessage_def)

theorem invalid_operation_rejected_witness:
  "''rename'' \<notin> {''read'', ''write'', ''delete'', ''deleteFolder'', ''download''}
   \<and> performOperation [''srv'']
        \<lparr>operation = ''rename'', filePath = ''no/such/../file'',
         options = \<lparr>ensureExists = True, mkdir = True, binary = False\<rparr>,
         data = Null, response = None\<rparr> None
      = (Inl (FileUtilsError ''Invalid file operation'' ''rename'' ''no/such/../file''
                (Error None ''Invalid file operation'')), None)"
  using invalid_operation_rejected
    [of "\<lparr>operation = ''rename'', filePath = ''no/such/../file'',
         options = \<lparr>ensureExists = True, mkdir = True, binary = False\<rparr>,
         data = Null, response = None\<rparr>" "[''srv'']" None]
  by simp

text \<open>
  C4, as the code has it. When the existence check of \<open>delete\<close> or \<open>deleteFolder\<close>
  fails, the call rejects with a \<open>FileUtilsError\<close> whose operation is the one requested.
  Its message is "File not found" when the path is absent (the check fails with
  \<open>ENOENT\<close>), "Not a directory" when the path lies below a regular file (\<open>ENOTDIR\<close>), and
  the message of the validation error when the path holds a NUL character. The error of
  the check is wrapped by \<open>ensureExistsAndDelete\<close> and again by \<open>performOperation\<close>; the
  inner error has no code, so its message passes through.
\<close>

theorem delete_inaccessible_rejected:
  assumes "operation req = ''delete'' \<or> operation req = ''deleteFolder''"
    and "stat fs (path_resolve cwd (filePath req)) = Inl e"
  shows "(\<not> has_null_byte (path_string (path_resolve cwd (filePath req))) \<and> e = ENOENT \<longrightarrow>
            performOperation cwd req fs =
              (Inl (FileUtilsError ''File not found'' (operation req) (filePath req)
                      (FileUtilsError ''File not found'' (operation req)
                         (path_string (path_resolve cwd (filePath req)))
                         (system_error ENOENT ''access'' (path_resolve cwd (filePath req))))), fs))
         \<and> (\<not> has_null_byte (path_string (path_resolve cwd (filePath req))) \<and> e \<noteq> ENOENT \<longrightarrow>
            performOperation cwd req fs =
              (Inl (FileUtilsError ''Not a directory'' (operation req) (filePath req)
                      (FileUtilsError ''Not a directory'' (operation req)
                         (path_string (path_resolve cwd (filePath req)))
                         (system_error ENOTDIR ''access'' (path_resolve cwd (filePath req))))), fs))
         \<and> (has_null_byte (path_string (path_resolve cwd (filePath req))) \<longrightarrow>
            (\<exists>raw. err_code raw = Some ''ERR_INVALID_ARG_VALUE''
               \<and> performOperation cwd req fs =
                   (Inl (FileUtilsError (err_message raw) (operation req) (filePath req)
                           (FileUtilsError (err_message raw) (operation req)
                              (path_string (path_resolve cwd (filePath req))) raw)), fs)))"
proof -
  let ?p = "path_resolve cwd (filePath req)"
  have run: "performOperation cwd req fs =
      (Inl (new_FileUtilsError
              (new_FileUtilsError
                 (if has_null_byte (path_string ?p) then invalid_path_error ?p
                  else system_error e ''access'' ?p)
                 (operation req) (path_string ?p))
              (operation req) (filePath req)), fs)"
    using assms(1) fs_access_fails [OF assms(2)]
    by (auto simp add: performOperation_def performOperation_try_def io_defs Let_def
          ensureExistsAndDelete_def)
  have e: "e = ENOENT \<or> e = ENOTDIR"
    using assms(2) by (rule stat_Inl_cases)
  have absent: "\<not> has_null_byte (path_string ?p) \<and> e = ENOENT \<longrightarrow>
            performOperation cwd req fs =
              (Inl (FileUtilsError ''File not found'' (operation req) (filePath req)
                      (FileUtilsError ''File not found'' (operation req) (path_string ?p)
                         (system_error ENOENT ''access'' ?p))), fs)"
    using run by (simp add: new_FileUtilsError_def formatErrorMessage_def system_error_def)
  have below: "\<not> has_null_byte (path_string ?p) \<and> e \<noteq> ENOENT \<longrightarrow>
            performOperation cwd req fs =
              (Inl (FileUtilsError ''Not a directory'' (operation req) (filePath req)
                      (FileUtilsError ''Not a directory'' (operation req) (path_string ?p)
                         (system_error ENOTDIR ''access'' ?p))), fs)"
    using run e by (auto simp add: new_FileUtilsError_def formatErrorMessage_def system_error_def)
  have nul: "has_null_byte (path_string ?p) \<longrightarrow>
            (\<exists>raw. err_code raw = Some ''ERR_INVALID_ARG_VALUE''
               \<and> performOperation cwd req fs =
                   (Inl (FileUtilsError (err_message raw) (operation req) (filePath req)
                           (FileUtilsError (err_message raw) (operation req)
                              (path_string ?p) raw)), fs))"
  proof
    assume "has_null_byte (path_string ?p)"
    then have "err_code (invalid_path_error ?p) = Some ''ERR_INVALID_ARG_VALUE''
               \<and> performOperation cwd req fs =
                   (Inl (FileUtilsError (err_message (invalid_path_error ?p)) (operation req)
                           (filePath req)
                           (FileUtilsError (err_message (invalid_path_error ?p)) (operation req)
                              (path_string ?p) (invalid_path_error ?p))), fs)"
      using run by (simp add: new_FileUtilsError_def formatErrorMessage_def)
    then show "\<exists>raw. err_code raw = Some ''ERR_INVALID_ARG_VALUE''
               \<and> performOperation cwd req fs =
                   (Inl (FileUtilsError (err_message raw) (operation req) (filePath req)
                           (FileUtilsError (err_message raw) (operation req)
                              (path_string ?p) raw)), fs)"
      by blast
  qed
  show ?thesis using absent below nul by blast
qed

theorem delete_inaccessible_rejected_witness:
  "stat (Some (Dir Map.empty)) (path_resolve [] ''/tmp/gone'') = Inl ENOENT
   \<and> performOperation []
        \<lparr>operation = ''deleteFolder'', filePath = ''/tmp/gone'',
         options = \<lparr>ensureExists = False, mkdir = False, binary = False\<rparr>,
         data = Null, response = None\<rparr> (Some (Dir Map.empty))
      = (Inl (FileUtilsError ''File not found'' ''deleteFolder'' ''/tmp/gone''
                (FileUtilsError ''File not found'' ''deleteFolder'' ''/tmp/gone''
                   (Error (Some ''ENOENT'')
                      (''ENOENT: no such file or directory, access '' @
                       [CHR 0x27] @ ''/tmp/gone'' @ [CHR 0x27])))),
         Some (Dir Map.empty))"
proof -
  have h: "stat (Some (Dir Map.empty)) (path_resolve [] ''/tmp/gone'') = Inl ENOENT"
    by (simp add: path_defs has_null_byte_def)
  show ?thesis
    using h delete_inaccessible_rejected
      [of "\<lparr>operation = ''deleteFolder'', filePath = ''/tmp/gone'',
         options = \<lparr>ensureExists = False, mkdir = False, binary = False\<rparr>,
         data = Null, response = None\<rparr>" "Some (Dir Map.empty)" "[]" ENOENT]
    by (simp add: path_defs system_error_def has_null_byte_def)
qed

text \<open>
  Deleting \<open>/f/x\<close> where \<open>/f\<close> is a regular file: nothing exists at the path, and the
  message is "Not a directory".
\<close>

theorem delete_inaccessible_counterexample:
  "stat (Some (Dir [''f'' \<mapsto> File ''1''])) (path_resolve [] ''/f/x'') = Inl ENOTDIR
   \<and> map_option err_message
       (rejection (performOperation []
          \<lparr>operation = ''delete'', filePath = ''/f/x'',
           options = \<lparr>ensureExists = False, mkdir = False, binary = False\<rparr>,
           data = Null, response = None\<rparr>
          (Some (Dir [''f'' \<mapsto> File ''1'']))))
     = Some ''Not a directory''"
  by (simp add: eval_defs)

text \<open>
  C2, as the code has it. For \<open>read\<close> and \<open>download\<close> with \<open>options.ensureExists\<close>, when
  the existence check fails, the error that reaches the caller carries the operation the
  caller asked for and the \<open>filePath\<close> of the request. The name \<open>ensureExists\<close> is the
  operation of its \<open>originalError\<close>: the \<open>FileUtilsError\<close> that \<open>ensureFileExists\<close> threw,
  with the resolved path, which the \<open>catch\<close> clause of \<open>performOperation\<close> wraps once more.
  The raw error inside is the system error of the check, or the validation error when the
  path holds a NUL character.
\<close>

theorem ensureExists_failure_wrapped_twice:
  assumes "operation req = ''read'' \<or> operation req = ''download''"
    and "ensureExists (options req)"
    and "stat fs (path_resolve cwd (filePath req)) = Inl e"
  shows "(\<not> has_null_byte (path_string (path_resolve cwd (filePath req))) \<longrightarrow>
          performOperation cwd req fs =
           (Inl (FileUtilsError
                   (formatErrorMessage (system_error e ''access'' (path_resolve cwd (filePath req))))
                   (operation req) (filePath req)
                   (FileUtilsError
                      (formatErrorMessage (system_error e ''access'' (path_resolve cwd (filePath req))))
                      ''ensureExists'' (path_string (path_resolve cwd (filePath req)))
                      (system_error e ''access'' (path_resolve cwd (filePath req))))), fs))
         \<and> (has_null_byte (path_string (path_resolve cwd (filePath req))) \<longrightarrow>
            (\<exists>raw. err_code raw = Some ''ERR_INVALID_ARG_VALUE''
               \<and> performOperation cwd req fs =
                   (Inl (FileUtilsError (err_message raw) (operation req) (filePath req)
                           (FileUtilsError (err_message raw) ''ensureExists''
                              (path_string (path_resolve cwd (filePath req))) raw)), fs)))"
proof -
  let ?p = "path_resolve cwd (filePath req)"
  have run: "performOperation cwd req fs =
      (Inl (new_FileUtilsError
              (new_FileUtilsError
                 (if has_null_byte (path_string ?p) then invalid_path_error ?p
                  else system_error e ''access'' ?p)
                 ''ensureExists'' (path_string ?p))
              (operation req) (filePath req)), fs)"
    using assms(1,2) fs_access_fails [OF assms(3)]
    by (auto simp add: performOperation_def performOperation_try_def io_defs Let_def
          ensureFileExists_def)
  have ok: "\<not> has_null_byte (path_string ?p) \<longrightarrow>
          performOperation cwd req fs =
           (Inl (FileUtilsError (formatErrorMessage (system_error e ''access'' ?p))
                   (operation req) (filePath req)
                   (FileUtilsError (formatErrorMessage (system_error e ''access'' ?p))
                      ''ensureExists'' (path_string ?p) (system_error e ''access'' ?p))), fs)"
    using run by (simp add: new_FileUtilsError_def formatErrorMessage_def)
  have nul: "has_null_byte (path_string ?p) \<longrightarrow>
            (\<exists>raw. err_code raw = Some ''ERR_INVALID_ARG_VALUE''
               \<and> performOperation cwd req fs =
                   (Inl (FileUtilsError (err_message raw) (operation req) (filePath req)
                           (FileUtilsError (err_message raw) ''ensureExists''
                              (path_string ?p) raw)), fs))"
  proof
    assume "has_null_byte (path_string ?p)"
    then have "err_code (invalid_path_error ?p) = Some ''ERR_INVALID_ARG_VALUE''
               \<and> performOperation cwd req fs =
                   (Inl (FileUtilsError (err_message (invalid_path_error ?p)) (operation req)
                           (filePath req)
                           (FileUtilsError (err_message (invalid_path_error ?p)) ''ensureExists''
                              (path_string ?p) (invalid_path_error ?p))), fs)"
      using run by (simp add: new_FileUtilsError_def formatErrorMessage_def)
    then show "\<exists>raw. err_code raw = Some ''ERR_INVALID_ARG_VALUE''
               \<and> performOperation cwd req fs =
                   (Inl (FileUtilsError (err_message raw) (operation req) (filePath req)
                           (FileUtilsError (err_message raw) ''ensureExists''
                              (path_string ?p) raw)), fs)"
      by blast
  qed
  show ?thesis using ok nul by blast
qed

theorem ensureExists_failure_wrapped_twice_witness:
  "stat (Some (Dir Map.empty)) (path_resolve [''srv''] ''../missing.zip'') = Inl ENOENT
   \<and> performOperation [''srv'']
        \<lparr>operation = ''download'', filePath = ''../missing.zip'',
         options = \<lparr>ensureExists = True, mkdir = False, binary = False\<rparr>,
         data = Null, response = Some (\<lambda>fs p. None)\<rparr>
        (Some (Dir Map.empty))
      = (Inl (FileUtilsError ''File not found'' ''download'' ''../missing.zip''
                (FileUtilsError ''File not found'' ''ensureExists'' ''/missing.zip''
                   (Error (Some ''ENOENT'')
                      (''ENOENT: no such file or directory, access '' @
                       [CHR 0x27] @ ''/missing.zip'' @ [CHR 0x27])))),
         Some (Dir Map.empty))"
proof -
  have h: "stat (Some (Dir Map.empty)) (path_resolve [''srv''] ''../missing.zip'') = Inl ENOENT"
    by (simp add: path_defs has_null_byte_def)
  show ?thesis
    using h ensureExists_failure_wrapped_twice
      [of "\<lparr>operation = ''download'', filePath = ''../missing.zip'',
         options = \<lparr>ensureExists = True, mkdir = False, binary = False\<rparr>,
         data = Null, response = Some (\<lambda>fs p. None)\<rparr>" "Some (Dir Map.empty)" "[''srv'']" ENOENT]
    by (simp add: path_defs system_error_def formatErrorMessage_def has_null_byte_def)
qed

text \<open>
  Reading \<open>/missing.txt\<close> with \<open>ensureExists\<close> in a file system that holds the root only:
  the operation of the error that reaches the caller is \<open>read\<close>, not \<open>ensureExists\<close>.
\<close>

theorem ensureExists_tag_counterexample:
  "map_option err_operation
     (rejection (performOperation []
        \<lparr>operation = ''read'', filePath = ''/missing.txt'',
         options = \<lparr>ensureExists = True, mkdir = False, binary = False\<rparr>,
         data = Null, response = None\<rparr>
        (Some (Dir Map.empty))))
   = Some (Some ''read'')"
  by (simp add: eval_defs)

text \<open>
  The cause of a failure, as the body of the \<open>try\<close> block throws it: it is a
  \<open>FileUtilsError\<close> exactly when a helper failed, and then it carries the helper's tag.
\<close>

lemma try_cause:
  assumes "performOperation_try cwd req fs = (Inl c, fs')"
  shows "(is_FileUtilsError c \<longleftrightarrow> helper_fails cwd req fs)
         \<and> (\<forall>tag. err_operation c = Some tag \<longrightarrow>
                tag \<in> {''ensureExists'', ''delete'', ''deleteFolder'', ''download''})"
proof -
  consider (rd) "operation req = ''read''" | (wr) "operation req = ''write''"
    | (dl) "operation req = ''download''" | (de) "operation req = ''delete''"
    | (df) "operation req = ''deleteFolder''"
    | (other) "operation req \<notin> {''read'', ''write'', ''delete'', ''deleteFolder'', ''download''}"
    by auto
  then show ?thesis
  proof cases
    case rd
    with assms show ?thesis
      by (auto simp add: performOperation_try_def io_defs Let_def new_FileUtilsError_def
            helper_fails_def null_stat_fails ensureFileExists_def fs_access_def fs_readFile_def
            split: if_splits sum.splits entry.splits dest: stat_Inr_no_null)
  next
    case wr
    with assms show ?thesis
      by (auto simp add: performOperation_try_def io_defs Let_def new_FileUtilsError_def
            helper_fails_def null_stat_fails fs_mkdir_recursive_def fs_writeFile_def
            split: if_splits sum.splits entry.splits option.splits dest: stat_Inr_no_null)
  next
    case dl
    with assms show ?thesis
      by (auto simp add: performOperation_try_def io_defs Let_def new_FileUtilsError_def
            helper_fails_def null_stat_fails ensureFileExists_def fs_access_def downloadFile_def
            split: if_splits sum.splits entry.splits option.splits dest: stat_Inr_no_null)
  next
    case de
    with assms show ?thesis
      by (auto simp add: performOperation_try_def io_defs Let_def new_FileUtilsError_def
            helper_fails_def null_stat_fails ensureExistsAndDelete_def fs_access_def fs_unlink_def
            split: if_splits sum.splits entry.splits option.splits dest: stat_Inr_no_null)
  next
    case df
    with assms show ?thesis
      by (auto simp add: performOperation_try_def io_defs Let_def new_FileUtilsError_def
            helper_fails_def null_stat_fails ensureExistsAndDelete_def fs_access_def fs_rm_recursive_force_def
            deleteFolder_def stat_alter_removed
            split: if_splits sum.splits entry.splits option.splits dest: stat_Inr_no_null)
  next
    case other
    with assms show ?thesis
      by (auto simp add: performOperation_try_def io_defs Let_def helper_fails_def null_stat_fails)
  qed
qed

text \<open>
  C3, as the code has it. Every failing call is wrapped by the \<open>catch\<close> clause of
  \<open>performOperation\<close>, once, with the operation and the \<open>filePath\<close> of the request. What
  it wraps is the raw error when a primitive called by \<open>performOperation\<close> itself fails
  (reading, writing, creating directories, the second unlink, the missing response, the
  unknown operation). When an existence check or the download helper fails, it wraps a
  \<open>FileUtilsError\<close> that the helper has built already, tagged \<open>ensureExists\<close>, \<open>delete\<close>,
  \<open>deleteFolder\<close> or \<open>download\<close>: that failure is normalized twice.
\<close>

theorem failure_wrapped_by_dispatcher:
  assumes "performOperation cwd req fs = (Inl e, fs')"
  shows "\<exists>cause. e = new_FileUtilsError cause (operation req) (filePath req)
           \<and> (is_FileUtilsError cause \<longleftrightarrow> helper_fails cwd req fs)
           \<and> (\<forall>tag. err_operation cause = Some tag \<longrightarrow>
                  tag \<in> {''ensureExists'', ''delete'', ''deleteFolder'', ''download''})"
proof -
  obtain c where c: "performOperation_try cwd req fs = (Inl c, fs')"
    and e: "e = new_FileUtilsError c (operation req) (filePath req)"
    using assms
    by (auto simp add: performOperation_def io_catch_def io_throw_def
          split: sum.splits prod.splits)
  show ?thesis using e try_cause [OF c] by blast
qed

theorem failure_wrapped_by_dispatcher_witness:
  "performOperation []
     \<lparr>operation = ''read'', filePath = ''/missing.txt'',
      options = \<lparr>ensureExists = False, mkdir = False, binary = False\<rparr>,
      data = Null, response = None\<rparr>
     (Some (Dir Map.empty))
   = (Inl (FileUtilsError ''File not found'' ''read'' ''/missing.txt''
             (Error (Some ''ENOENT'')
                (''ENOENT: no such file or directory, open '' @
                 [CHR 0x27] @ ''/missing.txt'' @ [CHR 0x27]))),
      Some (Dir Map.empty))
   \<and> \<not> helper_fails []
         \<lparr>operation = ''read'', filePath = ''/missing.txt'',
          options = \<lparr>ensureExists = False, mkdir = False, binary = False\<rparr>,
          data = Null, response = None\<rparr>
         (Some (Dir Map.empty))"
proof -
  let ?req = "\<lparr>operation = ''read'', filePath = ''/missing.txt'',
      options = \<lparr>ensureExists = False, mkdir = False, binary = False\<rparr>,
      data = Null, response = None\<rparr>"
  let ?e = "FileUtilsError ''File not found'' ''read'' ''/missing.txt''
             (Error (Some ''ENOENT'')
                (''ENOENT: no such file or directory, open '' @
                 [CHR 0x27] @ ''/missing.txt'' @ [CHR 0x27]))"
  have run: "performOperation [] ?req (Some (Dir Map.empty)) = (Inl ?e, Some (Dir Map.empty))"
    by (simp add: eval_defs)
  from failure_wrapped_by_dispatcher [OF run]
  have "\<not> helper_fails [] ?req (Some (Dir Map.empty))"
    by (auto simp add: new_FileUtilsError_def)
  with run show ?thesis by simp
qed

text \<open>
  Deleting \<open>/gone.txt\<close> in a file system that holds the root only: the \<open>originalError\<close>
  of the error that reaches the caller is itself a \<open>FileUtilsError\<close>.
\<close>

theorem normalized_once_counterexample:
  "Option.bind
     (rejection (performOperation []
        \<lparr>operation = ''delete'', filePath = ''/gone.txt'',
         options = \<lparr>ensureExists = False, mkdir = False, binary = False\<rparr>,
         data = Null, response = None\<rparr>
        (Some (Dir Map.empty))))
     err_originalError
   = Some (FileUtilsError ''File not found'' ''delete'' ''/gone.txt''
             (Error (Some ''ENOENT'')
                (''ENOENT: no such file or directory, access '' @
                 [CHR 0x27] @ ''/gone.txt'' @ [CHR 0x27])))"
  by (simp add: eval_defs)

text \<open>
  C10, as the code has it. A \<open>download\<close> without a response object, on a path that
  exists when \<open>options.ensureExists\<close> is set, rejects with the message "Response object
  is required for download", the operation \<open>download\<close> and the \<open>filePath\<close> of the request,
  and leaves the file system as it was. With \<open>ensureExists\<close> set the existence check
  runs before the response is looked at.
\<close>

theorem download_without_response:
  assumes "operation req = ''download''"
    and "response req = None"
    and "ensureExists (options req) \<longrightarrow> stat fs (path_resolve cwd (filePath req)) = Inr x"
  shows "performOperation cwd req fs =
           (Inl (FileUtilsError ''Response object is required for download'' ''download''
                   (filePath req) (Error None ''Response object is required for download'')), fs)"
  using assms fs_access_succeeds [of fs "path_resolve cwd (filePath req)" x]
  by (auto simp add: dispatch_defs ensureFileExists_def formatErrorMessage_def)

theorem download_without_response_witness:
  "stat (Some (Dir [''file.zip'' \<mapsto> File ''PK''])) (path_resolve [] ''/file.zip'')
     = Inr (RegularFile ''PK'')
   \<and> performOperation []
        \<lparr>operation = ''download'', filePath = ''/file.zip'',
         options = \<lparr>ensureExists = True, mkdir = False, binary = False\<rparr>,
         data = Null, response = None\<rparr>
        (Some (Dir [''file.zip'' \<mapsto> File ''PK'']))
      = (Inl (FileUtilsError ''Response object is required for download'' ''download''
                ''/file.zip'' (Error None ''Response object is required for download'')),
         Some (Dir [''file.zip'' \<mapsto> File ''PK'']))"
proof -
  have h: "stat (Some (Dir [''file.zip'' \<mapsto> File ''PK''])) (path_resolve [] ''/file.zip'')
        = Inr (RegularFile ''PK'')"
    by (simp add: path_defs has_null_byte_def)
  show ?thesis
    using h download_without_response
      [of "\<lparr>operation = ''download'', filePath = ''/file.zip'',
         options = \<lparr>ensureExists = True, mkdir = False, binary = False\<rparr>,
         data = Null, response = None\<rparr>" "Some (Dir [''file.zip'' \<mapsto> File ''PK''])" "[]"
        "RegularFile ''PK''"]
    by simp
qed

text \<open>
  A \<open>download\<close> of \<open>/missing.zip\<close> with \<open>ensureExists\<close> and without a response, in a file
  system that holds the root only: the message is "File not found".
\<close>

theorem download_without_response_counterexample:
  "map_option err_message
     (rejection (performOperation []
        \<lparr>operation = ''download'', filePath = ''/missing.zip'',
         options = \<lparr>ensureExists = True, mkdir = False, binary = False\<rparr>,
         data = Null, response = None\<rparr>
        (Some (Dir Map.empty))))
   = Some ''File not found''"
  by (simp add: eval_defs)

section \<open>The operations\<close>

text \<open>
  C1. The claim is that \<open>delete\<close> of an existing regular file succeeds. In the code
  \<open>ensureExistsAndDelete\<close> unlinks the file already, and the \<open>fs.unlink\<close> that follows it
  in \<open>performOperation\<close> finds nothing to remove: for every existing regular file the
  call rejects with "File not found", tagged \<open>delete\<close>, and the file is gone.
\<close>

theorem delete_existing_file_rejects:
  assumes "operation req = ''delete''"
    and "stat fs (path_resolve cwd (filePath req)) = Inr (RegularFile b)"
  shows "performOperation cwd req fs =
           (Inl (FileUtilsError ''File not found'' ''delete'' (filePath req)
                   (system_error ENOENT ''unlink'' (path_resolve cwd (filePath req)))),
            alter (\<lambda>x. None) (path_resolve cwd (filePath req)) fs)"
proof -
  let ?p = "path_resolve cwd (filePath req)"
  have nul: "\<not> has_null_byte (path_string ?p)"
    using assms(2) by (rule stat_Inr_no_null)
  have gone: "stat (alter (\<lambda>x. None) ?p fs) ?p = Inl ENOENT"
    using assms(2) by (rule stat_alter_removed)
  show ?thesis
    using assms(1) fs_access_succeeds [OF assms(2)] fs_unlink_file [OF assms(2)]
      fs_unlink_fails [OF gone nul]
    by (simp add: dispatch_defs ensureExistsAndDelete_def formatErrorMessage_def
          system_error_def)
qed

theorem delete_existing_file_rejects_witness:
  "stat (Some (Dir [''notes.txt'' \<mapsto> File ''abc''])) (path_resolve [] ''/notes.txt'')
     = Inr (RegularFile ''abc'')
   \<and> performOperation []
        \<lparr>operation = ''delete'', filePath = ''/notes.txt'',
         options = \<lparr>ensureExists = False, mkdir = False, binary = False\<rparr>,
         data = Null, response = None\<rparr>
        (Some (Dir [''notes.txt'' \<mapsto> File ''abc'']))
      = (Inl (FileUtilsError ''File not found'' ''delete'' ''/notes.txt''
                (Error (Some ''ENOENT'')
                   (''ENOENT: no such file or directory, unlink '' @
                    [CHR 0x27] @ ''/notes.txt'' @ [CHR 0x27]))),
         Some (Dir Map.empty))"
proof -
  have h: "stat (Some (Dir [''notes.txt'' \<mapsto> File ''abc''])) (path_resolve [] ''/notes.txt'')
     = Inr (RegularFile ''abc'')"
    by (simp add: path_defs has_null_byte_def)
  show ?thesis
    using h delete_existing_file_rejects
      [of "\<lparr>operation = ''delete'', filePath = ''/notes.txt'',
         options = \<lparr>ensureExists = False, mkdir = False, binary = False\<rparr>,
         data = Null, response = None\<rparr>" "Some (Dir [''notes.txt'' \<mapsto> File ''abc''])" "[]" "''abc''"]
    by (simp add: path_defs system_error_def)
qed

text \<open>
  C6. \<open>deleteFolder\<close> on an existing directory succeeds and removes the whole tree: the
  directory and every path below it are gone, every path that is not below it is as it
  was, and an existence check on the directory fails afterwards. The tree is removed by
  \<open>ensureExistsAndDelete\<close>; the \<open>fs.rm\<close> of \<open>deleteFolder\<close> that follows finds it removed
  already, which \<open>force\<close> lets pass.
\<close>

theorem deleteFolder_removes_tree:
  assumes "operation req = ''deleteFolder''"
    and "stat fs (path_resolve cwd (filePath req)) = Inr Directory"
  shows "performOperation cwd req fs =
           (Inr (Str ''Folder deleted successfully''),
            alter (\<lambda>x. None) (path_resolve cwd (filePath req)) fs)
         \<and> (\<forall>q. stat (alter (\<lambda>x. None) (path_resolve cwd (filePath req)) fs)
                    (path_resolve cwd (filePath req) @ q) = Inl ENOENT)
         \<and> (\<forall>q. \<not> prefix (path_resolve cwd (filePath req)) q \<longrightarrow>
                 stat (alter (\<lambda>x. None) (path_resolve cwd (filePath req)) fs) q = stat fs q)
         \<and> fst (fs_access (path_resolve cwd (filePath req))
                  (alter (\<lambda>x. None) (path_resolve cwd (filePath req)) fs))
             = Inl (system_error ENOENT ''access'' (path_resolve cwd (filePath req)))"
proof -
  let ?p = "path_resolve cwd (filePath req)"
  let ?fs' = "alter (\<lambda>x. None) ?p fs"
  have gone: "stat ?fs' (?p @ q) = Inl ENOENT" for q
    using assms(2) by (rule stat_alter_remove)
  have gone0: "stat ?fs' ?p = Inl ENOENT"
    using gone [of "[]"] by simp
  have nul: "\<not> has_null_byte (path_string ?p)"
    using assms(2) by (rule stat_Inr_no_null)
  have run: "performOperation cwd req fs = (Inr (Str ''Folder deleted successfully''), ?fs')"
    using assms(1) fs_access_succeeds [OF assms(2)] fs_rm_present [OF assms(2)]
      fs_rm_absent [OF gone0 nul]
    by (simp add: dispatch_defs ensureExistsAndDelete_def deleteFolder_def)
  have frame: "\<not> prefix ?p q \<Longrightarrow> stat ?fs' q = stat fs q" for q
    by (rule stat_alter_frame)
  have chk: "fst (fs_access ?p ?fs') = Inl (system_error ENOENT ''access'' ?p)"
    using gone0 nul by (simp add: fs_access_def)
  show ?thesis using run gone frame chk by blast
qed

theorem deleteFolder_removes_tree_witness:
  "stat (Some (Dir [''keep.txt'' \<mapsto> File ''k'',
                    ''data'' \<mapsto> Dir [''a.txt'' \<mapsto> File ''1'',
                                     ''sub'' \<mapsto> Dir [''b.txt'' \<mapsto> File ''2'']]]))
     (path_resolve [] ''/data'') = Inr Directory
   \<and> performOperation []
        \<lparr>operation = ''deleteFolder'', filePath = ''/data'',
         options = \<lparr>ensureExists = False, mkdir = False, binary = False\<rparr>,
         data = Null, response = None\<rparr>
        (Some (Dir [''keep.txt'' \<mapsto> File ''k'',
                    ''data'' \<mapsto> Dir [''a.txt'' \<mapsto> File ''1'',
                                     ''sub'' \<mapsto> Dir [''b.txt'' \<mapsto> File ''2'']]]))
      = (Inr (Str ''Folder deleted successfully''), Some (Dir [''keep.txt'' \<mapsto> File ''k'']))
   \<and> stat (Some (Dir [''keep.txt'' \<mapsto> File ''k''])) [''data'', ''sub'', ''b.txt''] = Inl ENOENT
   \<and> fst (fs_access [''data''] (Some (Dir [''keep.txt'' \<mapsto> File ''k''])))
       = Inl (system_error ENOENT ''access'' [''data''])"
proof -
  let ?fs = "Some (Dir [''keep.txt'' \<mapsto> File ''k'',
                    ''data'' \<mapsto> Dir [''a.txt'' \<mapsto> File ''1'',
                                     ''sub'' \<mapsto> Dir [''b.txt'' \<mapsto> File ''2'']]])"
  let ?req = "\<lparr>operation = ''deleteFolder'', filePath = ''/data'',
         options = \<lparr>ensureExists = False, mkdir = False, binary = False\<rparr>,
         data = Null, response = None\<rparr>"
  have p: "path_resolve [] ''/data'' = [''data'']"
    by (simp add: path_defs)
  have h: "stat ?fs (path_resolve [] (filePath ?req)) = Inr Directory"
    by (simp add: path_defs has_null_byte_def)
  have o: "operation ?req = ''deleteFolder''" by simp
  from deleteFolder_removes_tree [OF o h]
  have run: "performOperation [] ?req ?fs
               = (Inr (Str ''Folder deleted successfully''), alter (\<lambda>x. None) [''data''] ?fs)"
    and gone: "stat (alter (\<lambda>x. None) [''data''] ?fs) ([''data''] @ [''sub'', ''b.txt'']) = Inl ENOENT"
    and chk: "fst (fs_access [''data''] (alter (\<lambda>x. None) [''data''] ?fs))
                = Inl (system_error ENOENT ''access'' [''data''])"
    unfolding p by (simp_all only: request.simps p)
  have a: "alter (\<lambda>x. None) [''data''] ?fs = Some (Dir [''keep.txt'' \<mapsto> File ''k''])"
    by simp
  from run gone chk h show ?thesis unfolding a by (simp add: p has_null_byte_def)
qed

text \<open>
  C7, as the code has it. A \<open>write\<close> with \<open>options.mkdir\<close> to a path that holds no NUL
  character and whose parent directory is absent with no regular file on the way (the
  path is not the root, and the lookup of its directory name fails with \<open>ENOENT\<close>) creates
  the missing directories and then writes the data: the call resolves with the success
  message, every proper ancestor of the path is a directory afterwards, the path is a
  regular file with the bytes of the data, and every path that is neither an ancestor of
  the path nor below it is as it was.
\<close>

theorem write_with_mkdir_creates_parents:
  assumes "operation req = ''write''"
    and "mkdir (options req)"
    and "bytes_of (data req) = Some b"
    and "path_resolve cwd (filePath req) \<noteq> []"
    and "stat fs (path_dirname (path_resolve cwd (filePath req))) = Inl ENOENT"
    and "\<not> has_null_byte (path_string (path_resolve cwd (filePath req)))"
  shows "\<exists>fs'. performOperation cwd req fs = (Inr (Str ''File written successfully''), fs')
           \<and> (\<forall>q. strict_prefix q (path_resolve cwd (filePath req)) \<longrightarrow> stat fs' q = Inr Directory)
           \<and> stat fs' (path_resolve cwd (filePath req)) = Inr (RegularFile b)
           \<and> (\<forall>q. \<not> prefix q (path_resolve cwd (filePath req))
                  \<and> \<not> prefix (path_resolve cwd (filePath req)) q \<longrightarrow> stat fs' q = stat fs q)"
proof -
  let ?p = "path_resolve cwd (filePath req)"
  let ?d = "butlast ?p"
  have nul: "\<not> has_null_byte (path_string ?p)" by (rule assms(6))
  have nuld: "\<not> has_null_byte (path_string ?d)"
    using nul by (rule has_null_butlast)
  have par: "stat fs ?d = Inl ENOENT"
    using assms(5) by (simp add: path_dirname_def)
  obtain t where mk: "mkdirs fs ?d = Inr t"
    using mkdirs_succeeds [of fs ?d] par nuld by blast
  have dirs: "prefix q ?d \<Longrightarrow> stat t q = Inr Directory" for q
    using mk nuld by (rule mkdirs_prefix)
  have same: "\<not> prefix q ?d \<Longrightarrow> stat t q = stat fs q" for q
    using mk by (rule mkdirs_frame)
  have "stat fs (?d @ [last ?p]) = Inl ENOENT"
    using par by (rule stat_ENOENT_append)
  then have absent: "stat fs ?p = Inl ENOENT"
    using assms(4) by simp
  have absent': "stat t ?p = Inl ENOENT"
    using same [of ?p] not_prefix_butlast [OF assms(4)] absent by simp
  let ?fs' = "alter (\<lambda>x. Some (File b)) ?p t"
  have wr: "fs_writeFile ?p (if data req = Undefined then Null else data req) enc t
              = (Inr (), ?fs')" for enc
    using assms(3,4) absent' dirs [of ?d] nul
    by (simp add: fs_writeFile_def)
  have run: "performOperation cwd req fs = (Inr (Str ''File written successfully''), ?fs')"
    using assms(1,2) mk wr nuld
    by (simp add: dispatch_defs fs_mkdir_recursive_def path_dirname_def)
  have isfile: "stat ?fs' ?p = Inr (RegularFile b)"
    using dirs [of ?d] nul by (simp add: stat_alter_put)
  have anc: "stat ?fs' q = Inr Directory" if "strict_prefix q ?p" for q
  proof -
    have "\<not> prefix ?p q" using that by (auto simp: strict_prefix_def)
    then have "stat ?fs' q = stat t q" by (rule stat_alter_frame)
    then show ?thesis using dirs [OF strict_prefix_butlast [OF that]] by simp
  qed
  have frame: "stat ?fs' q = stat fs q" if "\<not> prefix q ?p" "\<not> prefix ?p q" for q
  proof -
    have "stat ?fs' q = stat t q" using that(2) by (rule stat_alter_frame)
    moreover have "\<not> prefix q ?d"
      using that(1) by (meson prefix_order.trans prefixeq_butlast)
    ultimately show ?thesis using same by simp
  qed
  show ?thesis using run anc isfile frame by blast
qed

theorem write_with_mkdir_creates_parents_witness:
  "bytes_of (Buf ''01'') = Some ''01''
   \<and> path_resolve [''srv''] ''/var/log/app/out.bin'' \<noteq> []
   \<and> stat (Some (Dir [''var'' \<mapsto> Dir Map.empty]))
       (path_dirname (path_resolve [''srv''] ''/var/log/app/out.bin'')) = Inl ENOENT
   \<and> \<not> has_null_byte (path_string (path_resolve [''srv''] ''/var/log/app/out.bin''))
   \<and> fst (performOperation [''srv'']
        \<lparr>operation = ''write'', filePath = ''/var/log/app/out.bin'',
         options = \<lparr>ensureExists = False, mkdir = True, binary = True\<rparr>,
         data = Buf ''01'', response = None\<rparr>
        (Some (Dir [''var'' \<mapsto> Dir Map.empty])))
      = Inr (Str ''File written successfully'')
   \<and> stat (snd (performOperation [''srv'']
        \<lparr>operation = ''write'', filePath = ''/var/log/app/out.bin'',
         options = \<lparr>ensureExists = False, mkdir = True, binary = True\<rparr>,
         data = Buf ''01'', response = None\<rparr>
        (Some (Dir [''var'' \<mapsto> Dir Map.empty])))) [''var'', ''log'', ''app'']
      = Inr Directory
   \<and> stat (snd (performOperation [''srv'']
        \<lparr>operation = ''write'', filePath = ''/var/log/app/out.bin'',
         options = \<lparr>ensureExists = False, mkdir = True, binary = True\<rparr>,
         data = Buf ''01'', response = None\<rparr>
        (Some (Dir [''var'' \<mapsto> Dir Map.empty])))) [''var'', ''log'', ''app'', ''out.bin'']
      = Inr (RegularFile ''01'')"
proof -
  let ?fs = "Some (Dir [''var'' \<mapsto> Dir Map.empty])"
  let ?req = "\<lparr>operation = ''write'', filePath = ''/var/log/app/out.bin'',
         options = \<lparr>ensureExists = False, mkdir = True, binary = True\<rparr>,
         data = Buf ''01'', response = None\<rparr>"
  have p: "path_resolve [''srv''] ''/var/log/app/out.bin'' = [''var'', ''log'', ''app'', ''out.bin'']"
    by (simp add: path_defs)
  have h1: "operation ?req = ''write''" and h2: "mkdir (options ?req)"
    and h3: "bytes_of (data ?req) = Some ''01''"
    and h4: "path_resolve [''srv''] (filePath ?req) \<noteq> []"
    and h5: "stat ?fs (path_dirname (path_resolve [''srv''] (filePath ?req))) = Inl ENOENT"
    and h6: "\<not> has_null_byte (path_string (path_resolve [''srv''] (filePath ?req)))"
    by (simp_all add: p path_dirname_def path_string_def has_null_byte_def)
  from write_with_mkdir_creates_parents [OF h1 h2 h3 h4 h5 h6]
  obtain fs' where run: "performOperation [''srv''] ?req ?fs = (Inr (Str ''File written successfully''), fs')"
    and anc: "\<forall>q. strict_prefix q [''var'', ''log'', ''app'', ''out.bin''] \<longrightarrow> stat fs' q = Inr Directory"
    and fil: "stat fs' [''var'', ''log'', ''app'', ''out.bin''] = Inr (RegularFile ''01'')"
    by (auto simp add: p)
  have "strict_prefix [''var'', ''log'', ''app''] [''var'', ''log'', ''app'', ''out.bin'']"
    by simp
  with anc have "stat fs' [''var'', ''log'', ''app''] = Inr Directory" by blast
  with run fil h4 h5 h6 show ?thesis by simp
qed

text \<open>
  Writing \<open>/f/sub/x.txt\<close> with \<open>mkdir\<close> where \<open>/f\<close> is a regular file: the parent
  directory \<open>/f/sub\<close> does not exist, no directory can be created below a regular file,
  and the call rejects with "Not a directory", the file system left as it was.
\<close>

theorem write_with_mkdir_counterexample:
  "stat (Some (Dir [''f'' \<mapsto> File ''1'']))
     (path_dirname (path_resolve [] ''/f/sub/x.txt'')) = Inl ENOTDIR
   \<and> performOperation []
        \<lparr>operation = ''write'', filePath = ''/f/sub/x.txt'',
         options = \<lparr>ensureExists = False, mkdir = True, binary = False\<rparr>,
         data = Str ''hi'', response = None\<rparr>
        (Some (Dir [''f'' \<mapsto> File ''1'']))
      = (Inl (FileUtilsError ''Not a directory'' ''write'' ''/f/sub/x.txt''
                (Error (Some ''ENOTDIR'')
                   (''ENOTDIR: not a directory, mkdir '' @
                    [CHR 0x27] @ ''/f/sub'' @ [CHR 0x27]))),
         Some (Dir [''f'' \<mapsto> File ''1'']))"
  by (simp add: eval_defs)

lemma write_succeeds_file:
  assumes "operation req = ''write''"
    and "performOperation cwd req fs = (Inr v, fs')"
  shows "\<exists>b. bytes_of (data req) = Some b
           \<and> stat fs' (path_resolve cwd (filePath req)) = Inr (RegularFile b)"
proof -
  let ?p = "path_resolve cwd (filePath req)"
  obtain t u enc where
    "fs_writeFile ?p (if data req = Undefined then Null else data req) enc t = (Inr u, fs')"
    using assms
    by (auto simp add: dispatch_defs fs_mkdir_recursive_def
          split: if_splits sum.splits prod.splits)
  then have "\<exists>b. bytes_of (if data req = Undefined then Null else data req) = Some b
               \<and> stat fs' ?p = Inr (RegularFile b)"
    by (rule fs_writeFile_ok)
  then show ?thesis by (simp only: bytes_of_default)
qed

text \<open>
  C5, as the code has it. After a \<open>write\<close> that succeeded, whatever its options, a
  \<open>read\<close> of the same \<open>filePath\<close> with the same \<open>binary\<close> option resolves with the bytes
  that were written, as a Buffer, when \<open>binary\<close> is set; without \<open>binary\<close> it resolves
  with them, as a string, when they are well-formed UTF-8. The witness is the scenario of
  the specification: \<open>'hi'\<close> written to \<open>a/b/c.txt\<close> with \<open>mkdir\<close> is read back as \<open>'hi'\<close>.
\<close>

theorem read_after_write:
  assumes "operation w = ''write''"
    and "performOperation cwd w fs = (Inr v, fs')"
    and "operation r = ''read''"
    and "filePath r = filePath w"
    and "binary (options r) = binary (options w)"
    and "bytes_of (data w) = Some b"
    and "binary (options w) \<or> utf8_sanitize b = b"
  shows "performOperation cwd r fs' = (Inr (if binary (options w) then Buf b else Str b), fs')"
proof -
  have f: "stat fs' (path_resolve cwd (filePath w)) = Inr (RegularFile b)"
    using write_succeeds_file [OF assms(1,2)] assms(6) by auto
  show ?thesis
    using assms(3,4,5,7) fs_access_succeeds [OF f] fs_readFile_file [OF f]
    by (auto simp add: dispatch_defs ensureFileExists_def)
qed

theorem read_after_write_witness:
  "utf8_sanitize ''hi'' = ''hi''
   \<and> performOperation [''app'']
     \<lparr>operation = ''write'', filePath = ''a/b/c.txt'',
      options = \<lparr>ensureExists = False, mkdir = True, binary = False\<rparr>,
      data = Str ''hi'', response = None\<rparr>
     (Some (Dir [''app'' \<mapsto> Dir Map.empty]))
   = (Inr (Str ''File written successfully''),
      Some (Dir [''app'' \<mapsto> Dir [''a'' \<mapsto> Dir [''b'' \<mapsto> Dir [''c.txt'' \<mapsto> File ''hi'']]]]))
   \<and> performOperation [''app'']
        \<lparr>operation = ''read'', filePath = ''a/b/c.txt'',
         options = \<lparr>ensureExists = False, mkdir = False, binary = False\<rparr>,
         data = Null, response = None\<rparr>
        (Some (Dir [''app'' \<mapsto> Dir [''a'' \<mapsto> Dir [''b'' \<mapsto> Dir [''c.txt'' \<mapsto> File ''hi'']]]]))
      = (Inr (Str ''hi''),
         Some (Dir [''app'' \<mapsto> Dir [''a'' \<mapsto> Dir [''b'' \<mapsto> Dir [''c.txt'' \<mapsto> File ''hi'']]]]))"
proof -
  let ?w = "\<lparr>operation = ''write'', filePath = ''a/b/c.txt'',
      options = \<lparr>ensureExists = False, mkdir = True, binary = False\<rparr>,
      data = Str ''hi'', response = None\<rparr>"
  let ?r = "\<lparr>operation = ''read'', filePath = ''a/b/c.txt'',
         options = \<lparr>ensureExists = False, mkdir = False, binary = False\<rparr>,
         data = Null, response = None\<rparr>"
  have w: "performOperation [''app''] ?w (Some (Dir [''app'' \<mapsto> Dir Map.empty]))
   = (Inr (Str ''File written successfully''),
      Some (Dir [''app'' \<mapsto> Dir [''a'' \<mapsto> Dir [''b'' \<mapsto> Dir [''c.txt'' \<mapsto> File ''hi'']]]]))"
    by (simp add: eval_defs)
  have o: "operation ?w = ''write''" by simp
  have u: "utf8_sanitize ''hi'' = ''hi''"
    by (simp add: utf8_sanitize_def)
  from read_after_write [OF o w, of ?r "''hi''"] w u show ?thesis by simp
qed

text \<open>
  A Buffer that holds the single byte \<open>FF\<close>, written to \<open>/blob\<close> without \<open>binary\<close> and
  read back without \<open>binary\<close>: the call resolves with the string U+FFFD, whose bytes are
  \<open>EF BF BD\<close>.
\<close>

theorem read_after_write_counterexample:
  "performOperation []
     \<lparr>operation = ''write'', filePath = ''/blob'',
      options = \<lparr>ensureExists = False, mkdir = False, binary = False\<rparr>,
      data = Buf [CHR 0xFF], response = None\<rparr>
     (Some (Dir Map.empty))
   = (Inr (Str ''File written successfully''), Some (Dir [''blob'' \<mapsto> File [CHR 0xFF]]))
   \<and> performOperation []
        \<lparr>operation = ''read'', filePath = ''/blob'',
         options = \<lparr>ensureExists = False, mkdir = False, binary = False\<rparr>,
         data = Null, response = None\<rparr>
        (Some (Dir [''blob'' \<mapsto> File [CHR 0xFF]]))
      = (Inr (Str [CHR 0xEF, CHR 0xBF, CHR 0xBD]), Some (Dir [''blob'' \<mapsto> File [CHR 0xFF]]))"
  by (simp add: eval_defs utf8_sanitize_def replacement_character_def)

end
